theory Spec2Isabelle
  imports Main "HOL-Library.Sublist"
begin

section \<open>Webhook signatures: the signing, parsing and verification engine\<close>

text \<open>
  A shallow embedding of \<^verbatim>\<open>SignatureScheme.ts\<close>, \<^verbatim>\<open>SignatureObject.ts\<close> and
  \<^verbatim>\<open>Signature.ts\<close>.

  Conventions of the model.
  \<^item> A JavaScript string is the list of the bytes of its UTF-8 encoding (\<open>string\<close>), which is
    what \<^verbatim>\<open>Buffer.from(s, "utf8")\<close> compares; the separators \<^verbatim>\<open>,\<close> and \<^verbatim>\<open>=\<close> and the
    letters \<^verbatim>\<open>t\<close> and \<^verbatim>\<open>v\<close> are ASCII, so splitting the bytes is splitting the string.
    A \<^verbatim>\<open>Buffer\<close> is a list of bytes as well.
  \<^item> A JavaScript number that holds an integer is an \<open>int\<close>; \<^verbatim>\<open>NaN\<close> is \<open>None\<close> of
    \<open>int option\<close>. The model is exact on the safe integers (magnitude below \<open>2 ^ 53\<close>),
    where the arithmetic and the decimal rendering of a number are those of the integers.
    Beyond them a JavaScript number is a rounded double or \<^verbatim>\<open>Infinity\<close>, which an \<open>int\<close>
    does not follow; a property that depends on the value of such a number is stated
    under \<open>isSafeInteger\<close>.
  \<^item> A thrown \<^verbatim>\<open>Error\<close> is the \<open>Inl\<close> of a sum; the constructor names the message.
  \<^item> The module-level registry \<^verbatim>\<open>Schemes.schemes\<close> is a value passed to every function
    of the module that can see it.
\<close>

subsection \<open>Errors\<close>

datatype error =
    MalformedPair             \<comment> \<open>\<^verbatim>\<open>invalid signature\<close>\<close>
  | MalformedEntry            \<comment> \<open>\<^verbatim>\<open>invalid signature format\<close>\<close>
  | InvalidVersion            \<comment> \<open>\<^verbatim>\<open>signature scheme version must be an integer\<close>\<close>
  | UnknownScheme int         \<comment> \<open>\<^verbatim>\<open>invalid signature scheme version N\<close>\<close>
  | MissingTimestamp          \<comment> \<open>\<^verbatim>\<open>missing timestamp\<close>\<close>
  | DuplicateTimestamp        \<comment> \<open>\<^verbatim>\<open>timestamp cannot be specified multiple times\<close>\<close>
  | InvalidTimestamp          \<comment> \<open>\<^verbatim>\<open>timestamp must be an integer\<close>\<close>
  | Expired                   \<comment> \<open>\<^verbatim>\<open>signature has expired\<close>\<close>
  | Unsigned                  \<comment> \<open>\<^verbatim>\<open>payload not signed\<close>\<close>
  | NoValidSignature          \<comment> \<open>\<^verbatim>\<open>no valid signature\<close>\<close>
  | Untrusted                 \<comment> \<open>\<^verbatim>\<open>untrusted\<close>, thrown and caught inside \<^verbatim>\<open>verify\<close>\<close>
  | RangeError                \<comment> \<open>\<^verbatim>\<open>crypto.timingSafeEqual\<close> on buffers of different length\<close>

subsection \<open>The JavaScript library functions the code calls\<close>

type_synonym Buffer = "char list"

text \<open>\<^verbatim>\<open>s.split(sep)\<close> for a one-character separator: never empty, one more piece than
  there are separators.\<close>

fun split :: "char \<Rightarrow> string \<Rightarrow> string list" where
  "split sep [] = [[]]"
| "split sep (c # cs) =
     (if c = sep then [] # split sep cs
      else (case split sep cs of [] \<Rightarrow> [[c]] | p # ps \<Rightarrow> (c # p) # ps))"

text \<open>\<^verbatim>\<open>values.join(sep)\<close>.\<close>

fun join :: "char \<Rightarrow> string list \<Rightarrow> string" where
  "join sep [] = []"
| "join sep [x] = x"
| "join sep (x # y # ys) = x @ sep # join sep (y # ys)"

text \<open>The decimal rendering of an integer, as a template literal renders a number.\<close>

fun digits :: "nat \<Rightarrow> string" where
  "digits n = (if n < 10 then [char_of (48 + n)]
               else digits (n div 10) @ [char_of (48 + n mod 10)])"

declare digits.simps [simp del]

definition Number_toString :: "int \<Rightarrow> string" where
  "Number_toString n = (if n < 0 then CHR ''-'' # digits (nat (- n)) else digits (nat n))"

text \<open>The white space that \<^verbatim>\<open>parseInt\<close> skips at the start of its argument: the code
  points of \<^verbatim>\<open>WhiteSpace\<close> and \<^verbatim>\<open>LineTerminator\<close>, each as its UTF-8 bytes.\<close>

definition white_space :: "string list" where
  "white_space =
     [[CHR 0x09], [CHR 0x0A], [CHR 0x0B], [CHR 0x0C], [CHR 0x0D], [CHR 0x20],
      [CHR 0xC2, CHR 0xA0], [CHR 0xE1, CHR 0x9A, CHR 0x80],
      [CHR 0xE2, CHR 0x80, CHR 0x80], [CHR 0xE2, CHR 0x80, CHR 0x81],
      [CHR 0xE2, CHR 0x80, CHR 0x82], [CHR 0xE2, CHR 0x80, CHR 0x83],
      [CHR 0xE2, CHR 0x80, CHR 0x84], [CHR 0xE2, CHR 0x80, CHR 0x85],
      [CHR 0xE2, CHR 0x80, CHR 0x86], [CHR 0xE2, CHR 0x80, CHR 0x87],
      [CHR 0xE2, CHR 0x80, CHR 0x88], [CHR 0xE2, CHR 0x80, CHR 0x89],
      [CHR 0xE2, CHR 0x80, CHR 0x8A], [CHR 0xE2, CHR 0x80, CHR 0xA8],
      [CHR 0xE2, CHR 0x80, CHR 0xA9], [CHR 0xE2, CHR 0x80, CHR 0xAF],
      [CHR 0xE2, CHR 0x81, CHR 0x9F], [CHR 0xE3, CHR 0x80, CHR 0x80],
      [CHR 0xEF, CHR 0xBB, CHR 0xBF]]"

definition ws_prefix :: "string \<Rightarrow> nat" where
  "ws_prefix s = (case List.find (\<lambda>w. prefix w s) white_space of
                    None \<Rightarrow> 0 | Some w \<Rightarrow> length w)"

function trim_start :: "string \<Rightarrow> string" where
  "trim_start s = (if ws_prefix s = 0 then s else trim_start (drop (ws_prefix s) s))"
  by pat_completeness auto
termination
proof (relation "measure length")
  show "wf (measure length)" by simp
next
  fix s :: string
  assume "ws_prefix s \<noteq> 0"
  moreover have "ws_prefix s \<le> length s"
    by (auto simp: ws_prefix_def prefix_def split: option.splits
             dest!: find_Some_iff [THEN iffD1])
  ultimately show "(drop (ws_prefix s) s, s) \<in> measure length" by simp
qed

declare trim_start.simps [simp del]

definition is_digit :: "char \<Rightarrow> bool" where
  "is_digit c = (48 \<le> (of_char c :: nat) \<and> (of_char c :: nat) \<le> 57)"

definition digits_value :: "string \<Rightarrow> nat" where
  "digits_value Z = foldl (\<lambda>a c. 10 * a + ((of_char c :: nat) - 48)) 0 Z"

text \<open>\<^verbatim>\<open>parseInt(string, 10)\<close>: skip white space, read a sign, read the longest run of
  decimal digits, ignore what follows; \<^verbatim>\<open>NaN\<close> when there is no digit. The result here is
  the integer that the digits write. JavaScript returns the double nearest to it: the same
  integer when it is a safe integer, a rounded one from \<open>2 ^ 53\<close> on, and \<^verbatim>\<open>Infinity\<close>
  beyond the doubles (a run of 310 digits). Which of \<^verbatim>\<open>NaN\<close>, zero and non-zero the
  result is does not depend on the rounding; its value does, on the safe integers only.\<close>

definition parseInt :: "string \<Rightarrow> int option" where
  "parseInt inputString =
     (let S = trim_start inputString;
          sgn1 = (case S of c # _ \<Rightarrow> if c = CHR ''-'' then - 1 else 1 | [] \<Rightarrow> (1::int));
          S' = (case S of c # r \<Rightarrow> if c = CHR ''+'' \<or> c = CHR ''-'' then r else S | [] \<Rightarrow> S);
          Z = takeWhile is_digit S'
      in if Z = [] then None else Some (sgn1 * int (digits_value Z)))"

text \<open>\<^verbatim>\<open>Number.isSafeInteger\<close>: the integers that a number holds exactly and renders in
  decimal digits.\<close>

definition isSafeInteger :: "int \<Rightarrow> bool" where
  "isSafeInteger n = (- (2 ^ 53) < n \<and> n < 2 ^ 53)"

text \<open>The truth value of a \<^verbatim>\<open>number | undefined\<close>: \<^verbatim>\<open>undefined\<close>, \<^verbatim>\<open>NaN\<close> (both \<open>None\<close>)
  and \<open>0\<close> are falsy.\<close>

definition truthy :: "int option \<Rightarrow> bool" where
  "truthy n = (case n of None \<Rightarrow> False | Some k \<Rightarrow> k \<noteq> 0)"

text \<open>\<^verbatim>\<open>crypto.timingSafeEqual(a, b)\<close> throws when the byte lengths differ.\<close>

definition timingSafeEqual :: "Buffer \<Rightarrow> Buffer \<Rightarrow> error + bool" where
  "timingSafeEqual a b = (if length a \<noteq> length b then Inl RangeError else Inr (a = b))"

subsection \<open>\<^verbatim>\<open>SignatureScheme.ts\<close>\<close>

record SignatureScheme =
  sign :: "int \<Rightarrow> Buffer \<Rightarrow> string \<Rightarrow> string"
  version :: int

text \<open>The built-in scheme. \<^verbatim>\<open>crypto.createHmac('sha256', secret)\<close>, fed the message and
  read with \<^verbatim>\<open>digest('hex')\<close>, is Node's library and is a parameter here: \<open>hmac key msg\<close>.\<close>

definition SignatureSchemeV1 :: "(string \<Rightarrow> Buffer \<Rightarrow> string) \<Rightarrow> SignatureScheme" where
  "SignatureSchemeV1 hmac =
     \<lparr> sign = (\<lambda>t payload secret. hmac secret (Number_toString t @ ''.'' @ payload)),
       version = 1 \<rparr>"

text \<open>The scheme of the test suite (\<^verbatim>\<open>Signature.spec.ts\<close>).\<close>

definition FakeSignatureScheme :: SignatureScheme where
  "FakeSignatureScheme =
     \<lparr> sign = (\<lambda>t payload secret.
         Number_toString t @ '':'' @ secret @ '':('' @ Number_toString (int (length payload)) @ '')''),
       version = 1337 \<rparr>"

text \<open>The registry \<^verbatim>\<open>Schemes\<close>: its state is the array \<^verbatim>\<open>Schemes.schemes\<close>.\<close>

type_synonym Schemes = "SignatureScheme list"

definition Schemes_initial :: "(string \<Rightarrow> Buffer \<Rightarrow> string) \<Rightarrow> Schemes" where
  "Schemes_initial hmac = [SignatureSchemeV1 hmac]"

definition Schemes_find :: "Schemes \<Rightarrow> int \<Rightarrow> SignatureScheme option" where
  "Schemes_find schemes v = List.find (\<lambda>s. version s = v) schemes"

definition Schemes_register :: "Schemes \<Rightarrow> SignatureScheme \<Rightarrow> Schemes" where
  "Schemes_register schemes s =
     (case Schemes_find schemes (version s) of
        Some _ \<Rightarrow> schemes
      | None \<Rightarrow> schemes @ [s])"

definition Schemes_unregister :: "Schemes \<Rightarrow> int \<Rightarrow> Schemes" where
  "Schemes_unregister schemes v = filter (\<lambda>s. version s \<noteq> v) schemes"

subsection \<open>\<^verbatim>\<open>SignatureObject.ts\<close>\<close>

record SignatureObject =
  scheme :: SignatureScheme
  "value" :: string

definition createSignatureObject ::
  "SignatureScheme \<Rightarrow> int \<Rightarrow> Buffer \<Rightarrow> string \<Rightarrow> SignatureObject" where
  "createSignatureObject sch ts p secret =
     \<lparr> scheme = sch, value = sign sch ts p secret \<rparr>"

definition SignatureObject_parse :: "Schemes \<Rightarrow> string \<Rightarrow> error + SignatureObject" where
  "SignatureObject_parse schemes text =
     (case split CHR ''='' text of
        [versionStr, signature] \<Rightarrow>
          (if (case versionStr of [] \<Rightarrow> True | c # _ \<Rightarrow> c \<noteq> CHR ''v'') then Inl MalformedEntry
           else let ver = parseInt (remove1 CHR ''v'' versionStr) in
             if \<not> truthy ver then Inl InvalidVersion
             else (case Schemes_find schemes (the ver) of
                     None \<Rightarrow> Inl (UnknownScheme (the ver))
                   | Some sch \<Rightarrow> Inr \<lparr> scheme = sch, value = signature \<rparr>))
      | _ \<Rightarrow> Inl MalformedEntry)"

text \<open>\<^verbatim>\<open>equals\<close>: the \<^verbatim>\<open>try\<close> returns the comparison, the \<^verbatim>\<open>catch\<close> returns false.\<close>

definition SignatureObject_equals :: "SignatureObject \<Rightarrow> SignatureObject \<Rightarrow> bool" where
  "SignatureObject_equals this sig =
     (case timingSafeEqual (value this) (value sig) of
        Inr b \<Rightarrow> b
      | Inl _ \<Rightarrow> False)"

text \<open>\<^verbatim>\<open>verify\<close>: the field \<^verbatim>\<open>scheme\<close> is declared non-optional, so the guard
  \<^verbatim>\<open>!this.scheme\<close> never fires on a value of the declared type.\<close>

definition SignatureObject_verify :: "SignatureObject \<Rightarrow> Buffer \<Rightarrow> string \<Rightarrow> int \<Rightarrow> bool" where
  "SignatureObject_verify this p secret ts =
     (let freshSig = createSignatureObject (scheme this) ts p secret
      in if \<not> SignatureObject_equals this freshSig then False else True)"

definition SignatureObject_toString :: "SignatureObject \<Rightarrow> string" where
  "SignatureObject_toString this =
     ''v'' @ Number_toString (version (scheme this)) @ ''='' @ value this"

subsection \<open>\<^verbatim>\<open>Signature.ts\<close>\<close>

definition DEFAULT_SIGNATURE_TOLERANCE :: int where
  "DEFAULT_SIGNATURE_TOLERANCE = 300"

record CreateSignatureOptions =
  timestamp :: int
  payload :: Buffer
  secrets :: "string list"
  schemes :: "SignatureScheme list option"

text \<open>\<^verbatim>\<open>now\<close> is the value the clock override returns when it is called.\<close>

record VerifySignatureOptions =
  tolerance :: "int option"
  ignoreTolerance :: "bool option"
  now :: "int option"
  untrustedSchemes :: "SignatureScheme list option"

text \<open>The class \<^verbatim>\<open>Signature\<close>; its field \<^verbatim>\<open>timestamp\<close> is \<open>sig_timestamp\<close> here, the
  name \<open>timestamp\<close> being the field of the options above.\<close>

record Signature =
  sig_timestamp :: int
  signatureObjects :: "SignatureObject list"

text \<open>\<^verbatim>\<open>createSignature\<close>: the two nested \<^verbatim>\<open>forEach\<close> loops push onto one array.\<close>

definition createSignature :: "Schemes \<Rightarrow> CreateSignatureOptions \<Rightarrow> Signature" where
  "createSignature registry params =
     (let schemes' = (case schemes params of None \<Rightarrow> registry | Some l \<Rightarrow> l);
          signatures =
            foldl (\<lambda>signatures sch.
                     foldl (\<lambda>signatures secret.
                              signatures @ [createSignatureObject sch (timestamp params)
                                              (payload params) secret])
                           signatures (secrets params))
                  [] schemes'
      in \<lparr> sig_timestamp = timestamp params, signatureObjects = signatures \<rparr>)"

text \<open>\<^verbatim>\<open>parse\<close>: the body of the \<^verbatim>\<open>forEach\<close> over the pairs, on the two variables
  the closure updates; a throw ends the loop.\<close>

fun parse_pairs ::
  "Schemes \<Rightarrow> string list \<Rightarrow> int option \<Rightarrow> SignatureObject list
     \<Rightarrow> error + (int option \<times> SignatureObject list)" where
  "parse_pairs registry [] ts signatures = Inr (ts, signatures)"
| "parse_pairs registry (pair # pairs) ts signatures =
     (case split CHR ''='' pair of
        [k, v] \<Rightarrow>
          (if k = ''t'' then
             (if truthy ts then Inl DuplicateTimestamp
              else let ts' = parseInt v in
                if \<not> truthy ts' then Inl InvalidTimestamp
                else parse_pairs registry pairs ts' signatures)
           else (case SignatureObject_parse registry pair of
                   Inl e \<Rightarrow> Inl e
                 | Inr sig \<Rightarrow> parse_pairs registry pairs ts (signatures @ [sig])))
      | _ \<Rightarrow> Inl MalformedPair)"

definition Signature_parse :: "Schemes \<Rightarrow> string \<Rightarrow> error + Signature" where
  "Signature_parse registry text =
     (case parse_pairs registry (split CHR '','' text) None [] of
        Inl e \<Rightarrow> Inl e
      | Inr (ts, signatures) \<Rightarrow>
          (if \<not> truthy ts then Inl MissingTimestamp
           else Inr \<lparr> sig_timestamp = the ts, signatureObjects = signatures \<rparr>))"

text \<open>The inner loop of \<^verbatim>\<open>verify\<close> over \<^verbatim>\<open>untrustedSchemes\<close>, which throws on the
  first scheme of the entry's version.\<close>

fun check_untrusted :: "SignatureScheme list \<Rightarrow> SignatureObject \<Rightarrow> error + unit" where
  "check_untrusted [] sig = Inr ()"
| "check_untrusted (sch # rest) sig =
     (if version sch = version (scheme sig) then Inl Untrusted
      else check_untrusted rest sig)"

text \<open>The outer loop: the \<^verbatim>\<open>catch\<close> continues with the next entry, a valid entry returns,
  and the loop running out throws.\<close>

fun verify_loop ::
  "SignatureScheme list \<Rightarrow> Buffer \<Rightarrow> string \<Rightarrow> int \<Rightarrow> SignatureObject list
     \<Rightarrow> error + unit" where
  "verify_loop untrusted p secret ts [] = Inl NoValidSignature"
| "verify_loop untrusted p secret ts (sig # sigs) =
     (case check_untrusted untrusted sig of
        Inl _ \<Rightarrow> verify_loop untrusted p secret ts sigs
      | Inr _ \<Rightarrow>
          (if SignatureObject_verify sig p secret ts then Inr ()
           else verify_loop untrusted p secret ts sigs))"

text \<open>The first three lines of \<^verbatim>\<open>verify\<close> and the test of \<^verbatim>\<open>opts?.ignoreTolerance\<close>.
  \<open>Date_now\<close> is what \<^verbatim>\<open>Date.now()\<close> returns at the call.\<close>

definition verify_now :: "int \<Rightarrow> VerifySignatureOptions option \<Rightarrow> int" where
  "verify_now Date_now opts =
     (case Option.bind opts now of Some n \<Rightarrow> n | None \<Rightarrow> Date_now)"

definition verify_tolerance :: "VerifySignatureOptions option \<Rightarrow> int" where
  "verify_tolerance opts =
     (case Option.bind opts tolerance of Some t \<Rightarrow> t | None \<Rightarrow> DEFAULT_SIGNATURE_TOLERANCE)"

definition verify_untrustedSchemes :: "VerifySignatureOptions option \<Rightarrow> SignatureScheme list" where
  "verify_untrustedSchemes opts =
     (case Option.bind opts untrustedSchemes of Some l \<Rightarrow> l | None \<Rightarrow> [])"

definition verify_ignoreTolerance :: "VerifySignatureOptions option \<Rightarrow> bool" where
  "verify_ignoreTolerance opts = (Option.bind opts ignoreTolerance = Some True)"

text \<open>\<^verbatim>\<open>verify\<close>. The registry is in scope, as it is for every function of the module.\<close>

definition Signature_verify ::
  "Schemes \<Rightarrow> int \<Rightarrow> Signature \<Rightarrow> Buffer \<Rightarrow> string \<Rightarrow> VerifySignatureOptions option
     \<Rightarrow> error + unit" where
  "Signature_verify registry Date_now this p secret opts =
     (let now' = verify_now Date_now opts;
          tolerance' = verify_tolerance opts;
          untrusted = verify_untrustedSchemes opts
      in if \<not> verify_ignoreTolerance opts
            \<and> now' - sig_timestamp this > tolerance' * 1000 then Inl Expired
         else if length (signatureObjects this) = 0 then Inl Unsigned
         else verify_loop untrusted p secret (sig_timestamp this) (signatureObjects this))"

definition Signature_toString :: "Signature \<Rightarrow> string" where
  "Signature_toString this =
     join CHR '','' ((''t='' @ Number_toString (sig_timestamp this))
                    # map SignatureObject_toString (signatureObjects this))"

definition Signature_equals :: "Signature \<Rightarrow> Signature \<Rightarrow> bool" where
  "Signature_equals this sig =
     (case timingSafeEqual (Signature_toString this) (Signature_toString sig) of
        Inr b \<Rightarrow> b
      | Inl _ \<Rightarrow> False)"

section \<open>Properties\<close>

subsection \<open>Splitting and joining\<close>

lemma split_no_sep: "sep \<notin> set s \<Longrightarrow> split sep s = [s]"
  by (induction s) auto

lemma split_append: "sep \<notin> set a \<Longrightarrow> split sep (a @ sep # b) = a # split sep b"
  by (induction a) auto

lemma split_join:
  "xs \<noteq> [] \<Longrightarrow> \<forall>x \<in> set xs. sep \<notin> set x \<Longrightarrow> split sep (join sep xs) = xs"
  by (induction sep xs rule: join.induct) (auto simp: split_no_sep split_append)

subsection \<open>Decimal digits and \<^verbatim>\<open>parseInt\<close>\<close>

lemma is_digit_char_of: "(n::nat) < 10 \<Longrightarrow> is_digit (char_of (48 + n))"
  by (simp add: is_digit_def)

lemma digits_all_digit: "c \<in> set (digits n) \<Longrightarrow> is_digit c"
proof (induction n rule: digits.induct)
  case (1 n)
  show ?case
  proof (cases "n < 10")
    case True
    with "1.prems" show ?thesis
      by (simp add: digits.simps [of n] is_digit_char_of)
  next
    case False
    have "n mod 10 < 10" by simp
    with False "1.prems" "1.IH" show ?thesis
      by (auto simp: digits.simps [of n] intro: is_digit_char_of)
  qed
qed

lemma digits_not_Nil: "digits n \<noteq> []"
  by (subst digits.simps) simp

lemma digits_value_snoc:
  "digits_value (Z @ [c]) = 10 * digits_value Z + ((of_char c :: nat) - 48)"
  by (simp add: digits_value_def)

lemma digits_value_digits: "digits_value (digits n) = n"
proof (induction n rule: digits.induct)
  case (1 n)
  show ?case
  proof (cases "n < 10")
    case True
    then show ?thesis
      by (simp add: digits.simps [of n] digits_value_def)
  next
    case False
    have "n mod 10 < 10" by simp
    then have "(of_char (char_of (48 + n mod 10)) :: nat) = 48 + n mod 10"
      by simp
    with False "1.IH" show ?thesis
      by (simp add: digits.simps [of n] digits_value_snoc)
  qed
qed

text \<open>
  Every white space sequence starts with a byte that is neither a digit nor a sign, so
  \<^verbatim>\<open>parseInt\<close> trims nothing from a rendered number.
\<close>

lemma white_space_hd:
  "w \<in> set white_space \<Longrightarrow>
     w \<noteq> [] \<and> (of_char (hd w) :: nat) \<in> {9, 10, 11, 12, 13, 32, 194, 225, 226, 227, 239}"
  by (auto simp: white_space_def)

lemma ws_prefix_0:
  assumes "(of_char c :: nat) \<notin> {9, 10, 11, 12, 13, 32, 194, 225, 226, 227, 239}"
  shows "ws_prefix (c # cs) = 0"
proof -
  have "\<not> prefix w (c # cs)" if "w \<in> set white_space" for w
  proof
    assume p: "prefix w (c # cs)"
    from white_space_hd [OF that] obtain a as where w: "w = a # as"
      by (cases w) auto
    with p have "a = c" by simp
    with white_space_hd [OF that] w assms show False by simp
  qed
  then have "List.find (\<lambda>w. prefix w (c # cs)) white_space = None"
    by (simp add: find_None_iff)
  then show ?thesis by (simp add: ws_prefix_def)
qed

lemma trim_start_digit: "is_digit c \<Longrightarrow> trim_start (c # cs) = c # cs"
  by (subst trim_start.simps, subst ws_prefix_0) (auto simp: is_digit_def)

lemma trim_start_minus: "trim_start (CHR ''-'' # cs) = CHR ''-'' # cs"
  by (subst trim_start.simps, subst ws_prefix_0) simp_all

lemma is_digit_not_sign: "is_digit c \<Longrightarrow> c \<noteq> CHR ''-'' \<and> c \<noteq> CHR ''+''"
  by (auto simp: is_digit_def)

lemma is_digit_not_sep: "is_digit c \<Longrightarrow> c \<noteq> CHR '','' \<and> c \<noteq> CHR ''=''"
  by (auto simp: is_digit_def)

lemma takeWhile_digits: "takeWhile is_digit (digits n) = digits n"
  by (simp add: digits_all_digit)

lemma parseInt_digits: "parseInt (digits n) = Some (int n)"
proof -
  obtain c cs where d: "digits n = c # cs"
    using digits_not_Nil [of n] by (cases "digits n") auto
  have c: "is_digit c" using d digits_all_digit [of c n] by simp
  have t: "trim_start (digits n) = c # cs"
    using c d by (simp add: trim_start_digit)
  have "takeWhile is_digit (c # cs) = c # cs"
    using takeWhile_digits [of n] unfolding d .
  moreover have "digits_value (c # cs) = n"
    using digits_value_digits [of n] unfolding d .
  ultimately show ?thesis
    using is_digit_not_sign [OF c]
    by (simp only: parseInt_def Let_def t list.case if_False) simp
qed

lemma parseInt_minus_digits: "parseInt (CHR ''-'' # digits n) = Some (- int n)"
proof -
  have t: "trim_start (CHR ''-'' # digits n) = CHR ''-'' # digits n"
    by (rule trim_start_minus)
  show ?thesis
    by (simp only: parseInt_def Let_def t list.case)
       (simp add: digits_not_Nil takeWhile_digits digits_value_digits)
qed

lemma parseInt_Number_toString: "parseInt (Number_toString n) = Some n"
  by (simp add: Number_toString_def parseInt_digits parseInt_minus_digits)

lemma Number_toString_no_sep:
  "CHR '','' \<notin> set (Number_toString n) \<and> CHR ''='' \<notin> set (Number_toString n)"
  using is_digit_not_sep digits_all_digit by (auto simp: Number_toString_def)

subsection \<open>Evaluation on the strings of the examples\<close>

lemma parseInt_examples:
  "parseInt ''0'' = Some 0" "parseInt ''1'' = Some 1" "parseInt ''7'' = Some 7"
  "parseInt ''-1'' = Some (- 1)" "parseInt ''-5'' = Some (- 5)"
  "parseInt ''1337'' = Some 1337" "parseInt ''1337abc'' = Some 1337"
  by code_simp+

lemma parseInt_999: "parseInt ''999'' = Some 999"
  by code_simp

lemma Fake_sign_examples:
  "sign FakeSignatureScheme 1 [] ''ab'' = ''1:ab:(0)''"
  "sign FakeSignatureScheme 1 [] ''a,b'' = ''1:a,b:(0)''"
  by code_simp+

lemma Schemes_find_Fake:
  "Schemes_find [FakeSignatureScheme] 1337 = Some FakeSignatureScheme"
  "v \<noteq> 1337 \<Longrightarrow> Schemes_find [FakeSignatureScheme] v = None"
  by (auto simp: Schemes_find_def FakeSignatureScheme_def)

lemmas parse_eval =
  Signature_parse_def SignatureObject_parse_def parseInt_examples parseInt_999 truthy_def
  Schemes_find_Fake

lemmas verify_opts_defs =
  verify_now_def verify_tolerance_def verify_untrustedSchemes_def verify_ignoreTolerance_def
  DEFAULT_SIGNATURE_TOLERANCE_def

subsection \<open>Signing\<close>

lemma foldl_push: "foldl (\<lambda>acc x. acc @ [f x]) acc xs = acc @ map f xs"
  by (induction xs arbitrary: acc) simp_all

lemma foldl_foldl_push:
  "foldl (\<lambda>acc s. foldl (\<lambda>acc x. acc @ [g s x]) acc xs) acc ss
     = acc @ concat (map (\<lambda>s. map (g s) xs) ss)"
  by (induction ss arbitrary: acc) (simp_all add: foldl_push)

lemma length_concat_const:
  "length (concat (map (\<lambda>s. map (g s) xs) ss)) = length ss * length xs"
  by (induction ss) simp_all

text \<open>
  Claim C4. \<^verbatim>\<open>createSignature\<close> produces one entry for every pair of a scheme and a
  secret: the entries are the Cartesian product, the effective schemes (the argument, or
  the registry when it is absent) in the outer loop and the secrets in the inner loop,
  each in its own order; there are \<open>|schemes| * |secrets|\<close> of them, and the schemes
  \<open>[A, B]\<close> with the secrets \<open>[s1, s2]\<close> give \<open>A/s1, A/s2, B/s1, B/s2\<close>.
\<close>

theorem createSignature_cartesian_product:
  "signatureObjects (createSignature registry params) =
     concat (map (\<lambda>sch. map (createSignatureObject sch (timestamp params) (payload params))
                           (secrets params))
                 (case schemes params of None \<Rightarrow> registry | Some l \<Rightarrow> l))
   \<and> length (signatureObjects (createSignature registry params)) =
       length (case schemes params of None \<Rightarrow> registry | Some l \<Rightarrow> l) * length (secrets params)
   \<and> signatureObjects (createSignature registry
         \<lparr> timestamp = ts, payload = p, secrets = [s1, s2], schemes = Some [A, B] \<rparr>) =
       [createSignatureObject A ts p s1, createSignatureObject A ts p s2,
        createSignatureObject B ts p s1, createSignatureObject B ts p s2]"
  by (simp add: createSignature_def Let_def foldl_foldl_push length_concat_const)

subsection \<open>Verification\<close>

lemma check_untrusted_iff:
  "check_untrusted us sig = Inl Untrusted \<longleftrightarrow> version (scheme sig) \<in> version ` set us"
  by (induction us) auto

lemma check_untrusted_cases:
  "check_untrusted us sig =
     (if version (scheme sig) \<in> version ` set us then Inl Untrusted else Inr ())"
  by (induction us) auto

lemma SignatureObject_equals_iff: "SignatureObject_equals a b \<longleftrightarrow> value a = value b"
  by (auto simp: SignatureObject_equals_def timingSafeEqual_def)

lemma SignatureObject_verify_iff:
  "SignatureObject_verify sig p secret ts \<longleftrightarrow> sign (scheme sig) ts p secret = value sig"
  by (auto simp: SignatureObject_verify_def Let_def SignatureObject_equals_iff
                 createSignatureObject_def)

lemma verify_loop_result:
  "verify_loop us p secret ts sigs =
     (if \<exists>sig \<in> set sigs. version (scheme sig) \<notin> version ` set us
                           \<and> SignatureObject_verify sig p secret ts
      then Inr () else Inl NoValidSignature)"
  by (induction sigs) (auto simp: check_untrusted_cases)

lemma Signature_verify_result:
  "Signature_verify registry Date_now E p secret opts =
     (if \<not> verify_ignoreTolerance opts
         \<and> verify_now Date_now opts - sig_timestamp E > verify_tolerance opts * 1000
      then Inl Expired
      else if signatureObjects E = [] then Inl Unsigned
      else if \<exists>sig \<in> set (signatureObjects E).
                version (scheme sig) \<notin> version ` set (verify_untrustedSchemes opts)
                \<and> sign (scheme sig) (sig_timestamp E) p secret = value sig
      then Inr () else Inl NoValidSignature)"
  by (simp add: Signature_verify_def Let_def verify_loop_result SignatureObject_verify_iff)

lemma Signature_equals_iff:
  "Signature_equals x y \<longleftrightarrow> Signature_toString x = Signature_toString y"
  by (auto simp: Signature_equals_def timingSafeEqual_def)

text \<open>
  Claim C1. When the tolerance check passes and the envelope holds an entry \<open>sig\<close> whose
  scheme version is not among the untrusted ones and whose stored value is what its scheme
  signs for the payload, the secret and the envelope's timestamp, \<^verbatim>\<open>verify\<close> succeeds,
  whatever the other entries are. The entries after \<open>sig\<close> play no part (any \<open>post'\<close>
  gives the same success), and when no entry before \<open>sig\<close> is a trusted match the loop
  over those earlier entries alone does not succeed: the success is at the first match.
\<close>

theorem verify_succeeds_on_first_match:
  assumes "signatureObjects E = pre @ sig # post"
    and "verify_ignoreTolerance opts
         \<or> verify_now Date_now opts - sig_timestamp E \<le> verify_tolerance opts * 1000"
    and "version (scheme sig) \<notin> version ` set (verify_untrustedSchemes opts)"
    and "sign (scheme sig) (sig_timestamp E) p secret = value sig"
  shows "Signature_verify registry Date_now E p secret opts = Inr ()
       \<and> Signature_verify registry Date_now (E\<lparr>signatureObjects := pre @ sig # post'\<rparr>)
             p secret opts = Inr ()
       \<and> ((\<forall>s \<in> set pre. version (scheme s) \<in> version ` set (verify_untrustedSchemes opts)
                          \<or> sign (scheme s) (sig_timestamp E) p secret \<noteq> value s)
            \<longrightarrow> verify_loop (verify_untrustedSchemes opts) p secret (sig_timestamp E) pre
                  = Inl NoValidSignature)"
proof -
  have ok: "\<not> (\<not> verify_ignoreTolerance opts
               \<and> verify_now Date_now opts - sig_timestamp E > verify_tolerance opts * 1000)"
    using assms(2) by auto
  have "Signature_verify registry Date_now E p secret opts = Inr ()"
    using ok assms(1,3,4) by (auto simp: Signature_verify_result)
  moreover have "Signature_verify registry Date_now (E\<lparr>signatureObjects := pre @ sig # post'\<rparr>)
                   p secret opts = Inr ()"
    using ok assms(3,4) by (auto simp: Signature_verify_result)
  moreover have "(\<forall>s \<in> set pre. version (scheme s) \<in> version ` set (verify_untrustedSchemes opts)
                          \<or> sign (scheme s) (sig_timestamp E) p secret \<noteq> value s)
            \<longrightarrow> verify_loop (verify_untrustedSchemes opts) p secret (sig_timestamp E) pre
                  = Inl NoValidSignature"
    by (auto simp: verify_loop_result SignatureObject_verify_iff)
  ultimately show ?thesis by blast
qed

text \<open>
  An envelope signed with the secrets \<open>ab\<close> and \<open>cd\<close> and verified with \<open>cd\<close>, on the
  boundary of the default tolerance: the second entry matches, the first does not.
\<close>

theorem verify_succeeds_on_first_match_witness:
  "sign FakeSignatureScheme 1 [] ''cd'' = ''1:cd:(0)''
   \<and> sign FakeSignatureScheme 1 [] ''cd'' \<noteq> ''1:ab:(0)''
   \<and> Signature_verify [FakeSignatureScheme] 300001
        \<lparr> sig_timestamp = 1,
          signatureObjects = [\<lparr> scheme = FakeSignatureScheme, value = ''1:ab:(0)'' \<rparr>,
                              \<lparr> scheme = FakeSignatureScheme, value = ''1:cd:(0)'' \<rparr>] \<rparr>
        [] ''cd'' None = Inr ()"
proof -
  let ?a = "\<lparr> scheme = FakeSignatureScheme, value = ''1:ab:(0)'' \<rparr>"
  let ?b = "\<lparr> scheme = FakeSignatureScheme, value = ''1:cd:(0)'' \<rparr>"
  let ?E = "\<lparr> sig_timestamp = 1, signatureObjects = [?a, ?b] \<rparr>"
  have s: "sign FakeSignatureScheme 1 [] ''cd'' = ''1:cd:(0)''"
    by code_simp
  have h1: "signatureObjects ?E = [?a] @ ?b # []" by simp
  have h2: "verify_ignoreTolerance None
            \<or> verify_now 300001 None - sig_timestamp ?E \<le> verify_tolerance None * 1000"
    by (simp add: verify_opts_defs)
  have h3: "version (scheme ?b) \<notin> version ` set (verify_untrustedSchemes None)"
    by (simp add: verify_opts_defs)
  have h4: "sign (scheme ?b) (sig_timestamp ?E) [] ''cd'' = value ?b"
    using s by simp
  from verify_succeeds_on_first_match [OF h1 h2 h3 h4, of "[FakeSignatureScheme]"] s
  show ?thesis by simp
qed

text \<open>
  Claim C2, as amended. \<^verbatim>\<open>verify\<close> fails with \<open>Expired\<close> if and only if
  \<^verbatim>\<open>ignoreTolerance\<close> is not true and \<open>now - timestamp > tolerance * 1000\<close>, the tolerance
  defaulting to 300 seconds. An age of exactly \<open>tolerance * 1000\<close> does not expire, and
  when the tolerance is not negative a negative age does not expire.
\<close>

theorem verify_expired_iff:
  "(Signature_verify registry Date_now E p secret opts = Inl Expired \<longleftrightarrow>
      \<not> verify_ignoreTolerance opts
      \<and> verify_now Date_now opts - sig_timestamp E > verify_tolerance opts * 1000)
   \<and> verify_tolerance None = 300
   \<and> verify_tolerance (Some \<lparr> tolerance = None, ignoreTolerance = i, now = n,
                               untrustedSchemes = u \<rparr>) = 300
   \<and> (verify_now Date_now opts - sig_timestamp E = verify_tolerance opts * 1000
        \<longrightarrow> Signature_verify registry Date_now E p secret opts \<noteq> Inl Expired)
   \<and> (0 \<le> verify_tolerance opts \<and> verify_now Date_now opts - sig_timestamp E < 0
        \<longrightarrow> Signature_verify registry Date_now E p secret opts \<noteq> Inl Expired)"
proof -
  have iff: "Signature_verify registry Date_now E p secret opts = Inl Expired \<longleftrightarrow>
      \<not> verify_ignoreTolerance opts
      \<and> verify_now Date_now opts - sig_timestamp E > verify_tolerance opts * 1000"
    by (simp add: Signature_verify_result)
  have d1: "verify_tolerance None = 300"
    by (simp add: verify_tolerance_def DEFAULT_SIGNATURE_TOLERANCE_def)
  have d2: "verify_tolerance (Some \<lparr> tolerance = None, ignoreTolerance = i, now = n,
                               untrustedSchemes = u \<rparr>) = 300"
    by (simp add: verify_tolerance_def DEFAULT_SIGNATURE_TOLERANCE_def)
  have b: "verify_now Date_now opts - sig_timestamp E = verify_tolerance opts * 1000
        \<longrightarrow> Signature_verify registry Date_now E p secret opts \<noteq> Inl Expired"
    using iff by simp
  have f: "0 \<le> verify_tolerance opts \<and> verify_now Date_now opts - sig_timestamp E < 0
        \<longrightarrow> Signature_verify registry Date_now E p secret opts \<noteq> Inl Expired"
    using iff by auto
  from iff d1 d2 b f show ?thesis by blast
qed

text \<open>
  With the default tolerance: the age \<open>300000\<close> passes, \<open>300001\<close> expires, and a
  timestamp in the future passes.
\<close>

theorem verify_expired_iff_witness:
  "verify_now 301000 None - 1000 = verify_tolerance None * 1000
   \<and> Signature_verify [] 301000 \<lparr> sig_timestamp = 1000, signatureObjects = [] \<rparr> [] [] None
     \<noteq> Inl Expired
   \<and> Signature_verify [] 301001 \<lparr> sig_timestamp = 1000, signatureObjects = [] \<rparr> [] [] None
     = Inl Expired
   \<and> 0 \<le> verify_tolerance None \<and> verify_now 0 None - 1000 < 0
   \<and> Signature_verify [] 0 \<lparr> sig_timestamp = 1000, signatureObjects = [] \<rparr> [] [] None
     \<noteq> Inl Expired"
  using verify_expired_iff [of "[]" 301000 "\<lparr> sig_timestamp = 1000, signatureObjects = [] \<rparr>" "[]" "[]" None]
        verify_expired_iff [of "[]" 301001 "\<lparr> sig_timestamp = 1000, signatureObjects = [] \<rparr>" "[]" "[]" None]
        verify_expired_iff [of "[]" 0 "\<lparr> sig_timestamp = 1000, signatureObjects = [] \<rparr>" "[]" "[]" None]
  by (simp add: verify_opts_defs)

text \<open>
  Claim C2 as it was stated fails for a negative tolerance. With a tolerance of \<open>-1\<close>
  second the age \<open>-500\<close> is above \<open>-1000\<close>, and the envelope is rejected as expired
  although its timestamp is in the future.
\<close>

theorem negative_age_counterexample:
  "verify_now 0 (Some \<lparr> tolerance = Some (- 1), ignoreTolerance = None, now = None,
                        untrustedSchemes = None \<rparr>) - 500 < 0
   \<and> Signature_verify [] 0 \<lparr> sig_timestamp = 500, signatureObjects = [] \<rparr> [] []
        (Some \<lparr> tolerance = Some (- 1), ignoreTolerance = None, now = None,
                untrustedSchemes = None \<rparr>) = Inl Expired"
  by (simp add: Signature_verify_def verify_opts_defs)

text \<open>
  Claim C8. An entry whose scheme version is among the untrusted ones is passed over: the
  loop gives the same result with the entry and without it, so it neither succeeds on it
  nor stops at it. When the tolerance check passes, the envelope has entries and every
  entry is untrusted or does not match, \<^verbatim>\<open>verify\<close> fails with \<open>NoValidSignature\<close>;
  it fails with \<open>Unsigned\<close> exactly when the tolerance check passes and there is no
  entry.
\<close>

theorem untrusted_entries_are_skipped:
  "(version (scheme sig) \<in> version ` set us
      \<longrightarrow> verify_loop us p secret ts (pre @ sig # post) = verify_loop us p secret ts (pre @ post))
   \<and> ((verify_ignoreTolerance opts
         \<or> verify_now Date_now opts - sig_timestamp E \<le> verify_tolerance opts * 1000)
       \<and> signatureObjects E \<noteq> []
       \<and> (\<forall>s \<in> set (signatureObjects E).
              version (scheme s) \<in> version ` set (verify_untrustedSchemes opts)
              \<or> sign (scheme s) (sig_timestamp E) p secret \<noteq> value s)
      \<longrightarrow> Signature_verify registry Date_now E p secret opts = Inl NoValidSignature)
   \<and> (Signature_verify registry Date_now E p secret opts = Inl Unsigned \<longleftrightarrow>
        (verify_ignoreTolerance opts
          \<or> verify_now Date_now opts - sig_timestamp E \<le> verify_tolerance opts * 1000)
        \<and> signatureObjects E = [])"
proof -
  have skip: "version (scheme sig) \<in> version ` set us
      \<longrightarrow> verify_loop us p secret ts (pre @ sig # post) = verify_loop us p secret ts (pre @ post)"
    by (auto simp: verify_loop_result)
  have none: "(verify_ignoreTolerance opts
         \<or> verify_now Date_now opts - sig_timestamp E \<le> verify_tolerance opts * 1000)
       \<and> signatureObjects E \<noteq> []
       \<and> (\<forall>s \<in> set (signatureObjects E).
              version (scheme s) \<in> version ` set (verify_untrustedSchemes opts)
              \<or> sign (scheme s) (sig_timestamp E) p secret \<noteq> value s)
      \<longrightarrow> Signature_verify registry Date_now E p secret opts = Inl NoValidSignature"
    by (auto simp: Signature_verify_result)
  have unsigned: "Signature_verify registry Date_now E p secret opts = Inl Unsigned \<longleftrightarrow>
        (verify_ignoreTolerance opts
          \<or> verify_now Date_now opts - sig_timestamp E \<le> verify_tolerance opts * 1000)
        \<and> signatureObjects E = []"
    by (auto simp: Signature_verify_result)
  from skip none unsigned show ?thesis by blast
qed

text \<open>
  Both entries are of the untrusted scheme, the second one with the right secret: the
  result is \<open>NoValidSignature\<close>.
\<close>

theorem untrusted_entries_are_skipped_witness:
  "version (scheme \<lparr> scheme = FakeSignatureScheme, value = ''1:cd:(0)'' \<rparr>)
     \<in> version ` set (verify_untrustedSchemes
           (Some \<lparr> tolerance = None, ignoreTolerance = None, now = None,
                   untrustedSchemes = Some [FakeSignatureScheme] \<rparr>))
   \<and> sign FakeSignatureScheme 1 [] ''cd'' = ''1:cd:(0)''
   \<and> Signature_verify [FakeSignatureScheme] 30
         \<lparr> sig_timestamp = 1,
           signatureObjects = [\<lparr> scheme = FakeSignatureScheme, value = ''1:ab:(0)'' \<rparr>,
                               \<lparr> scheme = FakeSignatureScheme, value = ''1:cd:(0)'' \<rparr>] \<rparr>
         [] ''cd''
         (Some \<lparr> tolerance = None, ignoreTolerance = None, now = None,
                 untrustedSchemes = Some [FakeSignatureScheme] \<rparr>)
       = Inl NoValidSignature"
proof -
  have s: "sign FakeSignatureScheme 1 [] ''cd'' = ''1:cd:(0)''"
    by code_simp
  from s untrusted_entries_are_skipped
    [where opts = "Some \<lparr> tolerance = None, ignoreTolerance = None, now = None,
                           untrustedSchemes = Some [FakeSignatureScheme] \<rparr>"
       and Date_now = 30
       and E = "\<lparr> sig_timestamp = 1,
                  signatureObjects = [\<lparr> scheme = FakeSignatureScheme, value = ''1:ab:(0)'' \<rparr>,
                                      \<lparr> scheme = FakeSignatureScheme, value = ''1:cd:(0)'' \<rparr>] \<rparr>"
       and p = "[]" and secret = "''cd''" and registry = "[FakeSignatureScheme]"]
  show ?thesis by (simp add: verify_opts_defs)
qed

text \<open>
  Claim C9. The two \<^verbatim>\<open>equals\<close> return a boolean on every pair: the equality of the
  compared byte strings. When the lengths differ, \<^verbatim>\<open>timingSafeEqual\<close> throws and
  \<^verbatim>\<open>equals\<close> returns false.
\<close>

theorem equals_never_throws:
  "(SignatureObject_equals a b \<longleftrightarrow> value a = value b)
   \<and> (length (value a) \<noteq> length (value b)
        \<longrightarrow> timingSafeEqual (value a) (value b) = Inl RangeError \<and> \<not> SignatureObject_equals a b)
   \<and> (Signature_equals x y \<longleftrightarrow> Signature_toString x = Signature_toString y)
   \<and> (length (Signature_toString x) \<noteq> length (Signature_toString y)
        \<longrightarrow> timingSafeEqual (Signature_toString x) (Signature_toString y) = Inl RangeError
            \<and> \<not> Signature_equals x y)"
  by (auto simp: SignatureObject_equals_iff Signature_equals_iff timingSafeEqual_def)

text \<open>
  Values of two and of three bytes.
\<close>

theorem equals_never_throws_witness:
  "timingSafeEqual ''ab'' ''abc'' = Inl RangeError
   \<and> \<not> SignatureObject_equals \<lparr> scheme = FakeSignatureScheme, value = ''ab'' \<rparr>
                               \<lparr> scheme = FakeSignatureScheme, value = ''abc'' \<rparr>"
  using equals_never_throws
    [of "\<lparr> scheme = FakeSignatureScheme, value = ''ab'' \<rparr>"
        "\<lparr> scheme = FakeSignatureScheme, value = ''abc'' \<rparr>"]
  by simp

text \<open>
  Claim C10. \<^verbatim>\<open>verify\<close> does not read the registry: under any two states of the
  registry, and before and after a scheme is unregistered, it gives the same result on
  the same envelope, payload, secret, options and clock.
\<close>

theorem verify_independent_of_registry:
  "Signature_verify registry1 Date_now E p secret opts
     = Signature_verify registry2 Date_now E p secret opts
   \<and> Signature_verify (Schemes_unregister registry v) Date_now E p secret opts
     = Signature_verify registry Date_now E p secret opts"
  by (simp add: Signature_verify_def)

subsection \<open>Parsing: the errors\<close>

lemma SignatureObject_parse_not_MissingTimestamp:
  "SignatureObject_parse registry text \<noteq> Inl MissingTimestamp"
  by (auto simp: SignatureObject_parse_def Let_def split: list.splits option.splits)

lemma SignatureObject_parse_two_parts:
  "SignatureObject_parse registry text = Inr sig \<Longrightarrow> \<exists>k v. split CHR ''='' text = [k, v]"
  by (auto simp: SignatureObject_parse_def split: list.splits)

lemma parse_pairs_not_MissingTimestamp:
  "parse_pairs registry pairs ts acc \<noteq> Inl MissingTimestamp"
proof (induction pairs arbitrary: ts acc)
  case Nil
  then show ?case by simp
next
  case (Cons pair pairs)
  then show ?case
    using SignatureObject_parse_not_MissingTimestamp [of registry pair]
    by (auto simp: Let_def split: list.splits sum.splits)
qed

lemma parse_pairs_no_t_Inr:
  assumes "\<forall>pair \<in> set pairs. \<forall>v. split CHR ''='' pair \<noteq> [''t'', v]"
    and "parse_pairs registry pairs ts acc = Inr (ts', acc')"
  shows "ts' = ts \<and> (\<forall>pair \<in> set pairs. \<exists>sig. SignatureObject_parse registry pair = Inr sig)"
  using assms
proof (induction pairs arbitrary: acc)
  case Nil
  then show ?case by simp
next
  case (Cons pair pairs)
  from Cons.prems(2) obtain k v where kv: "split CHR ''='' pair = [k, v]"
    by (auto split: list.splits)
  with Cons.prems(1) have k: "k \<noteq> ''t''" by auto
  from Cons.prems(2) kv k obtain sig where
    sig: "SignatureObject_parse registry pair = Inr sig"
    and rest: "parse_pairs registry pairs ts (acc @ [sig]) = Inr (ts', acc')"
    by (auto split: sum.splits)
  from Cons.IH [OF _ rest] Cons.prems(1) sig show ?case by auto
qed

lemma parse_pairs_no_t_entries:
  assumes "\<forall>pair \<in> set pairs. \<forall>v. split CHR ''='' pair \<noteq> [''t'', v]"
    and "\<forall>pair \<in> set pairs. \<exists>sig. SignatureObject_parse registry pair = Inr sig"
  shows "\<exists>acc'. parse_pairs registry pairs ts acc = Inr (ts, acc')"
  using assms
proof (induction pairs arbitrary: acc)
  case Nil
  then show ?case by simp
next
  case (Cons pair pairs)
  from Cons.prems(2) obtain sig where sig: "SignatureObject_parse registry pair = Inr sig"
    by auto
  from SignatureObject_parse_two_parts [OF sig] obtain k v where
    kv: "split CHR ''='' pair = [k, v]" by auto
  with Cons.prems(1) have k: "k \<noteq> ''t''" by auto
  have "parse_pairs registry (pair # pairs) ts acc
          = parse_pairs registry pairs ts (acc @ [sig])"
    using kv k sig by simp
  with Cons.IH [of "acc @ [sig]"] Cons.prems show ?case by auto
qed

text \<open>
  Claim C5, as amended. A header none of whose pairs has the key \<open>t\<close> never parses. The
  error is \<open>MissingTimestamp\<close> exactly when every pair parses as an entry; a pair that
  does not parse throws its own error before the timestamp is looked at, so
  \<^verbatim>\<open>v999=abc\<close> fails with \<open>UnknownScheme 999\<close> when no scheme of version 999 is
  registered.
\<close>

theorem parse_without_timestamp:
  assumes "\<forall>pair \<in> set (split CHR '','' text). \<forall>v. split CHR ''='' pair \<noteq> [''t'', v]"
  shows "(\<exists>e. Signature_parse registry text = Inl e)
       \<and> (Signature_parse registry text = Inl MissingTimestamp \<longleftrightarrow>
            (\<forall>pair \<in> set (split CHR '','' text).
               \<exists>sig. SignatureObject_parse registry pair = Inr sig))
       \<and> (Schemes_find registry 999 = None \<longrightarrow>
            Signature_parse registry ''v999=abc'' = Inl (UnknownScheme 999))"
proof -
  let ?pairs = "split CHR '','' text"
  have fails: "\<exists>e. Signature_parse registry text = Inl e"
  proof (cases "parse_pairs registry ?pairs None []")
    case (Inl e)
    then show ?thesis by (simp add: Signature_parse_def)
  next
    case (Inr r)
    obtain ts' acc' where r: "r = (ts', acc')" by (cases r)
    from parse_pairs_no_t_Inr [OF assms Inr [unfolded r]] have "ts' = None" by simp
    with Inr r show ?thesis by (simp add: Signature_parse_def truthy_def)
  qed
  have iff: "Signature_parse registry text = Inl MissingTimestamp \<longleftrightarrow>
            (\<forall>pair \<in> set ?pairs. \<exists>sig. SignatureObject_parse registry pair = Inr sig)"
  proof
    assume m: "Signature_parse registry text = Inl MissingTimestamp"
    show "\<forall>pair \<in> set ?pairs. \<exists>sig. SignatureObject_parse registry pair = Inr sig"
    proof (cases "parse_pairs registry ?pairs None []")
      case (Inl e)
      with m have "e = MissingTimestamp" by (simp add: Signature_parse_def)
      with Inl parse_pairs_not_MissingTimestamp show ?thesis by blast
    next
      case (Inr r)
      obtain ts' acc' where r: "r = (ts', acc')" by (cases r)
      from parse_pairs_no_t_Inr [OF assms Inr [unfolded r]] show ?thesis by simp
    qed
  next
    assume "\<forall>pair \<in> set ?pairs. \<exists>sig. SignatureObject_parse registry pair = Inr sig"
    from parse_pairs_no_t_entries [OF assms this, of None "[]"]
    show "Signature_parse registry text = Inl MissingTimestamp"
      by (auto simp: Signature_parse_def truthy_def)
  qed
  have v999: "Schemes_find registry 999 = None \<longrightarrow>
            Signature_parse registry ''v999=abc'' = Inl (UnknownScheme 999)"
    by (simp add: Signature_parse_def SignatureObject_parse_def parseInt_999 truthy_def)
  from fails iff v999 show ?thesis by blast
qed

text \<open>
  An entry of a registered scheme and no timestamp.
\<close>

theorem parse_without_timestamp_witness:
  "Signature_parse [FakeSignatureScheme] ''v1337=abc'' = Inl MissingTimestamp"
proof -
  have h: "\<forall>pair \<in> set (split CHR '','' ''v1337=abc''). \<forall>v. split CHR ''='' pair \<noteq> [''t'', v]"
    by simp
  have "\<forall>pair \<in> set (split CHR '','' ''v1337=abc'').
          \<exists>sig. SignatureObject_parse [FakeSignatureScheme] pair = Inr sig"
    by (simp add: parse_eval)
  with parse_without_timestamp [OF h, of "[FakeSignatureScheme]"] show ?thesis by blast
qed

text \<open>
  Claim C5 as it was stated fails on its own example: \<^verbatim>\<open>v999=abc\<close> throws
  \<^verbatim>\<open>invalid signature scheme version 999\<close>, as the test suite expects. The same holds
  under the initial registry, whatever the HMAC.
\<close>

theorem unknown_scheme_counterexample:
  "Signature_parse [FakeSignatureScheme] ''v999=abc'' = Inl (UnknownScheme 999)
   \<and> Signature_parse [FakeSignatureScheme] ''v999=abc'' \<noteq> Inl MissingTimestamp"
  by (simp add: parse_eval)

lemma unknown_scheme_default_registry:
  "Signature_parse (Schemes_initial hmac) ''v999=abc'' = Inl (UnknownScheme 999)"
  by (simp add: Signature_parse_def SignatureObject_parse_def parseInt_999 truthy_def
                Schemes_initial_def Schemes_find_def SignatureSchemeV1_def)

text \<open>
  Claim C6, as amended. For an entry text \<open>key=value\<close> whose key is \<open>v\<close> followed by
  \<open>rest\<close>, parsing fails with \<open>InvalidVersion\<close> exactly when \<^verbatim>\<open>parseInt\<close> finds no
  number at the start of \<open>rest\<close> or finds zero. Every other number, a negative one
  included, goes to the registry lookup: \<open>UnknownScheme\<close> when the lookup finds nothing,
  the entry of the scheme found otherwise.
\<close>

theorem entry_version_check:
  assumes "split CHR ''='' text = [CHR ''v'' # rest, signature]"
  shows "(SignatureObject_parse registry text = Inl InvalidVersion \<longleftrightarrow>
            parseInt rest = None \<or> parseInt rest = Some 0)
       \<and> (\<forall>n. parseInt rest = Some n \<and> n \<noteq> 0 \<longrightarrow>
            SignatureObject_parse registry text =
              (case Schemes_find registry n of
                 None \<Rightarrow> Inl (UnknownScheme n)
               | Some sch \<Rightarrow> Inr \<lparr> scheme = sch, value = signature \<rparr>))"
  using assms
  by (cases "parseInt rest")
     (auto simp: SignatureObject_parse_def Let_def truthy_def split: option.splits)

text \<open>
  Version zero is invalid; version 1337 is looked up and found, also when letters follow
  the digits.
\<close>

theorem entry_version_check_witness:
  "SignatureObject_parse [FakeSignatureScheme] ''v0=abc'' = Inl InvalidVersion
   \<and> SignatureObject_parse [FakeSignatureScheme] ''v1337=abc''
       = Inr \<lparr> scheme = FakeSignatureScheme, value = ''abc'' \<rparr>
   \<and> SignatureObject_parse [FakeSignatureScheme] ''v1337abc=x''
       = Inr \<lparr> scheme = FakeSignatureScheme, value = ''x'' \<rparr>"
proof -
  have a: "split CHR ''='' ''v0=abc'' = [CHR ''v'' # ''0'', ''abc'']" by simp
  have b: "split CHR ''='' ''v1337=abc'' = [CHR ''v'' # ''1337'', ''abc'']" by simp
  have c: "split CHR ''='' ''v1337abc=x'' = [CHR ''v'' # ''1337abc'', ''x'']" by simp
  from entry_version_check [OF a, of "[FakeSignatureScheme]"]
       entry_version_check [OF b, of "[FakeSignatureScheme]"]
       entry_version_check [OF c, of "[FakeSignatureScheme]"]
  show ?thesis by (simp add: parseInt_examples Schemes_find_Fake)
qed

text \<open>
  Claim C6 as it was stated fails for a negative version: \<open>-1\<close> is not rejected as
  invalid, it is looked up.
\<close>

theorem negative_version_counterexample:
  "SignatureObject_parse [FakeSignatureScheme] ''v-1=abc'' = Inl (UnknownScheme (- 1))
   \<and> SignatureObject_parse [FakeSignatureScheme] ''v-1=abc'' \<noteq> Inl InvalidVersion"
  by (simp add: parse_eval)

subsection \<open>Parsing what \<^verbatim>\<open>toString\<close> writes\<close>

lemma Schemes_find_version: "Schemes_find registry v = Some sch \<Longrightarrow> version sch = v"
  by (auto simp: Schemes_find_def find_Some_iff)

lemma SignatureObject_toString_split:
  assumes "CHR ''='' \<notin> set (value sig)"
  shows "split CHR ''='' (SignatureObject_toString sig)
           = [CHR ''v'' # Number_toString (version (scheme sig)), value sig]"
proof -
  have "CHR ''='' \<notin> set (CHR ''v'' # Number_toString (version (scheme sig)))"
    using Number_toString_no_sep [of "version (scheme sig)"] by simp
  then have "split CHR ''='' ((CHR ''v'' # Number_toString (version (scheme sig)))
                               @ CHR ''='' # value sig)
               = (CHR ''v'' # Number_toString (version (scheme sig))) # split CHR ''='' (value sig)"
    by (rule split_append)
  then show ?thesis
    using assms by (simp add: SignatureObject_toString_def split_no_sep)
qed

lemma SignatureObject_parse_toString:
  assumes "CHR ''='' \<notin> set (value sig)" and "version (scheme sig) \<noteq> 0"
    and "Schemes_find registry (version (scheme sig)) = Some sch"
  shows "SignatureObject_parse registry (SignatureObject_toString sig)
           = Inr \<lparr> scheme = sch, value = value sig \<rparr>"
  using assms
  by (simp add: SignatureObject_parse_def SignatureObject_toString_split
                parseInt_Number_toString truthy_def)

lemma SignatureObject_toString_reparsed:
  "Schemes_find registry (version (scheme sig)) = Some sch \<Longrightarrow>
     SignatureObject_toString \<lparr> scheme = sch, value = value sig \<rparr> = SignatureObject_toString sig"
  by (simp add: SignatureObject_toString_def Schemes_find_version)

lemma parse_pairs_toString:
  assumes "\<forall>sig \<in> set sigs. CHR ''='' \<notin> set (value sig) \<and> version (scheme sig) \<noteq> 0
                              \<and> Schemes_find registry (version (scheme sig)) \<noteq> None"
  shows "parse_pairs registry (map SignatureObject_toString sigs) ts acc
           = Inr (ts, acc @ map (\<lambda>sig. \<lparr> scheme = the (Schemes_find registry (version (scheme sig))),
                                          value = value sig \<rparr>) sigs)"
  using assms
proof (induction sigs arbitrary: acc)
  case Nil
  then show ?case by simp
next
  case (Cons sig sigs)
  from Cons.prems obtain sch where
    f: "Schemes_find registry (version (scheme sig)) = Some sch"
    and e: "CHR ''='' \<notin> set (value sig)" and v: "version (scheme sig) \<noteq> 0"
    by auto
  have "parse_pairs registry (SignatureObject_toString sig # map SignatureObject_toString sigs) ts acc
          = parse_pairs registry (map SignatureObject_toString sigs) ts
              (acc @ [\<lparr> scheme = sch, value = value sig \<rparr>])"
    by (simp add: SignatureObject_toString_split [OF e]
                  SignatureObject_parse_toString [OF e v f])
  also have "\<dots> = Inr (ts, (acc @ [\<lparr> scheme = sch, value = value sig \<rparr>])
                          @ map (\<lambda>sig. \<lparr> scheme = the (Schemes_find registry (version (scheme sig))),
                                          value = value sig \<rparr>) sigs)"
    using Cons.prems by (intro Cons.IH) simp
  finally show ?case using f by simp
qed

lemma SignatureObject_toString_no_comma:
  "CHR '','' \<notin> set (value sig) \<Longrightarrow> CHR '','' \<notin> set (SignatureObject_toString sig)"
  using Number_toString_no_sep [of "version (scheme sig)"]
  by (simp add: SignatureObject_toString_def)

lemma Signature_parse_toString:
  assumes ts: "sig_timestamp E \<noteq> 0"
    and sigs: "\<forall>sig \<in> set (signatureObjects E).
                 CHR '','' \<notin> set (value sig) \<and> CHR ''='' \<notin> set (value sig)
                 \<and> version (scheme sig) \<noteq> 0
                 \<and> Schemes_find registry (version (scheme sig)) \<noteq> None"
  shows "Signature_parse registry (Signature_toString E)
           = Inr \<lparr> sig_timestamp = sig_timestamp E,
                   signatureObjects =
                     map (\<lambda>sig. \<lparr> scheme = the (Schemes_find registry (version (scheme sig))),
                                   value = value sig \<rparr>) (signatureObjects E) \<rparr>"
proof -
  let ?t = "''t='' @ Number_toString (sig_timestamp E)"
  let ?pairs = "?t # map SignatureObject_toString (signatureObjects E)"
  have "\<forall>x \<in> set ?pairs. CHR '','' \<notin> set x"
    using sigs Number_toString_no_sep [of "sig_timestamp E"]
    by (auto simp: SignatureObject_toString_no_comma)
  then have pairs: "split CHR '','' (Signature_toString E) = ?pairs"
    unfolding Signature_toString_def by (intro split_join) simp_all
  have "split CHR ''='' (''t'' @ CHR ''='' # Number_toString (sig_timestamp E))
          = ''t'' # split CHR ''='' (Number_toString (sig_timestamp E))"
    by (rule split_append) simp
  then have t: "split CHR ''='' ?t = [''t'', Number_toString (sig_timestamp E)]"
    using Number_toString_no_sep [of "sig_timestamp E"] by (simp add: split_no_sep)
  have "parse_pairs registry ?pairs None []
          = parse_pairs registry (map SignatureObject_toString (signatureObjects E))
              (Some (sig_timestamp E)) []"
    unfolding parse_pairs.simps t
    using ts by (simp add: parseInt_Number_toString truthy_def)
  also have "\<dots> = Inr (Some (sig_timestamp E),
                        [] @ map (\<lambda>sig. \<lparr> scheme = the (Schemes_find registry (version (scheme sig))),
                                           value = value sig \<rparr>) (signatureObjects E))"
    using sigs by (intro parse_pairs_toString) simp
  finally show ?thesis
    using ts by (simp add: Signature_parse_def pairs truthy_def del: split.simps)
qed

lemma Signature_toString_reparsed:
  assumes "\<forall>sig \<in> set (signatureObjects E). Schemes_find registry (version (scheme sig)) \<noteq> None"
  shows "Signature_toString
           \<lparr> sig_timestamp = sig_timestamp E,
             signatureObjects =
               map (\<lambda>sig. \<lparr> scheme = the (Schemes_find registry (version (scheme sig))),
                             value = value sig \<rparr>) (signatureObjects E) \<rparr>
         = Signature_toString E"
proof -
  have "map SignatureObject_toString
          (map (\<lambda>sig. \<lparr> scheme = the (Schemes_find registry (version (scheme sig))),
                          value = value sig \<rparr>) (signatureObjects E))
          = map SignatureObject_toString (signatureObjects E)"
    using assms by (auto simp: SignatureObject_toString_reparsed)
  then show ?thesis
    unfolding Signature_toString_def by (simp only: Signature.select_convs)
qed

text \<open>
  Claim C3, as amended. Let \<open>E\<close> be built by \<^verbatim>\<open>createSignature\<close> from a positive safe
  integer timestamp and from schemes whose versions are positive safe integers that the
  registry finds. When no signature string of \<open>E\<close> contains a comma or an equals sign,
  parsing \<open>E.toString()\<close> succeeds and gives an envelope that \<^verbatim>\<open>equals\<close> \<open>E\<close>.
\<close>

theorem parse_toString_roundtrip:
  assumes "0 < timestamp params" and "isSafeInteger (timestamp params)"
    and "\<forall>sch \<in> set (case schemes params of None \<Rightarrow> registry | Some l \<Rightarrow> l).
           0 < version sch \<and> isSafeInteger (version sch)
           \<and> Schemes_find registry (version sch) \<noteq> None"
    and "\<forall>sig \<in> set (signatureObjects (createSignature registry params)).
           CHR '','' \<notin> set (value sig) \<and> CHR ''='' \<notin> set (value sig)"
  shows "\<exists>E'. Signature_parse registry (Signature_toString (createSignature registry params))
                = Inr E'
              \<and> Signature_equals E' (createSignature registry params)"
proof -
  let ?E = "createSignature registry params"
  have ts: "sig_timestamp ?E \<noteq> 0"
    using assms(1) by (simp add: createSignature_def Let_def)
  have sch: "\<forall>sig \<in> set (signatureObjects ?E).
               version (scheme sig) \<noteq> 0
               \<and> Schemes_find registry (version (scheme sig)) \<noteq> None"
    using assms(3)
    by (auto simp: createSignature_def Let_def foldl_foldl_push createSignatureObject_def)
  have "Signature_parse registry (Signature_toString ?E)
          = Inr \<lparr> sig_timestamp = sig_timestamp ?E,
                  signatureObjects =
                    map (\<lambda>sig. \<lparr> scheme = the (Schemes_find registry (version (scheme sig))),
                                  value = value sig \<rparr>) (signatureObjects ?E) \<rparr>"
    using ts sch assms(4) by (intro Signature_parse_toString) auto
  moreover have "Signature_equals
                   \<lparr> sig_timestamp = sig_timestamp ?E,
                     signatureObjects =
                       map (\<lambda>sig. \<lparr> scheme = the (Schemes_find registry (version (scheme sig))),
                                     value = value sig \<rparr>) (signatureObjects ?E) \<rparr> ?E"
    using sch by (simp add: Signature_equals_iff Signature_toString_reparsed)
  ultimately show ?thesis by blast
qed

text \<open>
  The scheme of the test suite and the secret \<open>ab\<close>.
\<close>

theorem parse_toString_roundtrip_witness:
  "\<exists>E'. Signature_parse [FakeSignatureScheme]
          (Signature_toString (createSignature [FakeSignatureScheme]
             \<lparr> timestamp = 1, payload = [], secrets = [''ab''],
               schemes = Some [FakeSignatureScheme] \<rparr>)) = Inr E'
       \<and> Signature_equals E' (createSignature [FakeSignatureScheme]
             \<lparr> timestamp = 1, payload = [], secrets = [''ab''],
               schemes = Some [FakeSignatureScheme] \<rparr>)"
proof (rule parse_toString_roundtrip)
  let ?params = "\<lparr> timestamp = 1, payload = [], secrets = [''ab''],
                   schemes = Some [FakeSignatureScheme] \<rparr>"
  show "0 < timestamp ?params" by simp
  show "isSafeInteger (timestamp ?params)" by (simp add: isSafeInteger_def)
  show "\<forall>sch \<in> set (case schemes ?params of None \<Rightarrow> [FakeSignatureScheme] | Some l \<Rightarrow> l).
          0 < version sch \<and> isSafeInteger (version sch)
          \<and> Schemes_find [FakeSignatureScheme] (version sch) \<noteq> None"
    by (simp add: isSafeInteger_def Schemes_find_def FakeSignatureScheme_def)
  show "\<forall>sig \<in> set (signatureObjects (createSignature [FakeSignatureScheme] ?params)).
          CHR '','' \<notin> set (value sig) \<and> CHR ''='' \<notin> set (value sig)"
    by (simp add: createSignature_def createSignatureObject_def Fake_sign_examples)
qed

text \<open>
  Claim C3 as it was stated fails for a registered scheme whose signature holds a
  separator. The scheme of the test suite copies the secret into the signature: with the
  secret \<^verbatim>\<open>a,b\<close> the envelope is written \<^verbatim>\<open>t=1,v1337=1:a,b:(0)\<close>, whose third pair
  \<^verbatim>\<open>b:(0)\<close> has no equals sign, and parsing throws \<^verbatim>\<open>invalid signature\<close>.
\<close>

theorem roundtrip_counterexample:
  "Signature_toString (createSignature [FakeSignatureScheme]
      \<lparr> timestamp = 1, payload = [], secrets = [''a,b''],
        schemes = Some [FakeSignatureScheme] \<rparr>) = ''t=1,v1337=1:a,b:(0)''
   \<and> Signature_parse [FakeSignatureScheme]
        (Signature_toString (createSignature [FakeSignatureScheme]
           \<lparr> timestamp = 1, payload = [], secrets = [''a,b''],
             schemes = Some [FakeSignatureScheme] \<rparr>)) = Inl MalformedPair"
proof -
  have s: "Signature_toString (createSignature [FakeSignatureScheme]
      \<lparr> timestamp = 1, payload = [], secrets = [''a,b''],
        schemes = Some [FakeSignatureScheme] \<rparr>) = ''t=1,v1337=1:a,b:(0)''"
    by code_simp
  have "Signature_parse [FakeSignatureScheme] ''t=1,v1337=1:a,b:(0)'' = Inl MalformedPair"
    by (simp add: parse_eval)
  with s show ?thesis by simp
qed

subsection \<open>The timestamp of an envelope\<close>

lemma Number_toString_examples:
  "Number_toString 7 = ''7''" "Number_toString (- 12) = ''-12''"
  by code_simp+

text \<open>
  Claim C7, as amended. The timestamp of an envelope that \<^verbatim>\<open>parse\<close> returns is not zero:
  the test \<^verbatim>\<open>!ts\<close> rejects \<^verbatim>\<open>NaN\<close> and zero and nothing else, whatever number
  \<^verbatim>\<open>parseInt\<close> returns. It does not check the sign: for every safe integer \<open>n\<close> other
  than zero, a negative one included, the header \<^verbatim>\<open>t=n\<close> parses to an envelope of
  timestamp \<open>n\<close>. \<^verbatim>\<open>createSignature\<close> stores the timestamp it is given as it is.
\<close>

theorem parsed_timestamp_nonzero:
  "(Signature_parse registry text = Inr E \<longrightarrow> sig_timestamp E \<noteq> 0)
   \<and> (isSafeInteger n \<and> n \<noteq> 0 \<longrightarrow>
        Signature_parse registry (''t='' @ Number_toString n)
          = Inr \<lparr> sig_timestamp = n, signatureObjects = [] \<rparr>)
   \<and> sig_timestamp (createSignature registry params) = timestamp params"
proof -
  have nz: "Signature_parse registry text = Inr E \<longrightarrow> sig_timestamp E \<noteq> 0"
    by (auto simp: Signature_parse_def truthy_def
             split: sum.splits prod.splits if_splits option.splits)
  have safe: "isSafeInteger n \<and> n \<noteq> 0 \<longrightarrow>
        Signature_parse registry (''t='' @ Number_toString n)
          = Inr \<lparr> sig_timestamp = n, signatureObjects = [] \<rparr>"
  proof
    assume "isSafeInteger n \<and> n \<noteq> 0"
    then have "sig_timestamp \<lparr> sig_timestamp = n, signatureObjects = [] \<rparr> \<noteq> 0"
      by simp
    from Signature_parse_toString [OF this, of registry]
    show "Signature_parse registry (''t='' @ Number_toString n)
            = Inr \<lparr> sig_timestamp = n, signatureObjects = [] \<rparr>"
      by (simp add: Signature_toString_def)
  qed
  have stored: "sig_timestamp (createSignature registry params) = timestamp params"
    by (simp add: createSignature_def Let_def)
  from nz safe stored show ?thesis by blast
qed

text \<open>
  The headers \<^verbatim>\<open>t=7\<close> and \<^verbatim>\<open>t=-12\<close>, both of safe integers.
\<close>

theorem parsed_timestamp_nonzero_witness:
  "isSafeInteger 7
   \<and> Signature_parse [FakeSignatureScheme] ''t=7''
       = Inr \<lparr> sig_timestamp = 7, signatureObjects = [] \<rparr>
   \<and> sig_timestamp \<lparr> sig_timestamp = 7, signatureObjects = [] \<rparr> \<noteq> 0
   \<and> isSafeInteger (- 12)
   \<and> Signature_parse [FakeSignatureScheme] ''t=-12''
       = Inr \<lparr> sig_timestamp = - 12, signatureObjects = [] \<rparr>"
proof -
  have s: "isSafeInteger 7" "isSafeInteger (- 12)" by (simp_all add: isSafeInteger_def)
  from s parsed_timestamp_nonzero
         [of "[FakeSignatureScheme]" "''t=7''"
             "\<lparr> sig_timestamp = 7, signatureObjects = [] \<rparr>" 7]
       parsed_timestamp_nonzero
         [of "[FakeSignatureScheme]" "''t=-12''"
             "\<lparr> sig_timestamp = - 12, signatureObjects = [] \<rparr>" "- 12"]
  show ?thesis by (simp add: Number_toString_examples)
qed

text \<open>
  Claim C7 as it was stated fails: \<^verbatim>\<open>t=-5\<close> parses, to the timestamp \<open>-5\<close>, and
  \<^verbatim>\<open>createSignature\<close> accepts \<open>-5\<close> as well.
\<close>

theorem negative_timestamp_counterexample:
  "Signature_parse [FakeSignatureScheme] ''t=-5''
     = Inr \<lparr> sig_timestamp = - 5, signatureObjects = [] \<rparr>
   \<and> sig_timestamp (createSignature [FakeSignatureScheme]
        \<lparr> timestamp = - 5, payload = [], secrets = [''ab''], schemes = None \<rparr>) = - 5"
  by (simp add: parse_eval createSignature_def)

end
